theory Spec2Isabelle
  imports Main "HOL-Library.Word"
begin

section \<open>The MOS 6502 board of hw/6502\_dp264.c\<close>

text \<open>
  The board file wires a CPU, five memory regions, a text console, a keyboard buffer and
  a timer together. Its functions do nothing but call into these collaborators, so the
  model records every such call, in program order, as an \<open>effect\<close>. A function of
  the source becomes a function that returns the effects it performs (and its C return
  value where it has one); values a collaborator hands back are parameters.
\<close>

type_synonym byte = "8 word"
type_synonym u64 = "64 word"

text \<open>The three interrupt masks passed to \<open>cpu_interrupt\<close>.\<close>

datatype interrupt = CPU_INTERRUPT_IRQ | CPU_INTERRUPT_NMI | CPU_INTERRUPT_RESET

text \<open>The functions of this file that are handed to a collaborator as a callback.\<close>

datatype callback = Can_read_handler | Read_handler | Timer_callback

datatype effect =
    Cpu_init
  | Set_pc nat
  | Get_system_memory
  | Memory_region_init_ram string nat
  | Memory_region_init_io string nat
  | Memory_region_set_readonly string bool
  | Vmstate_register_ram_global string
  | Memory_region_add_subregion nat string
  | Load_image_targphys string nat nat
  | Qemu_opts_create string
  | Qemu_opt_set string string
  | Text_console_init
  | Get_displaystate
  | Text_consoles_set_display
  | Console_select nat
  | Qemu_chr_add_handlers callback callback
  | Init_keyboard
  | Init_timer callback
  | Cpu_interrupt interrupt
  | Write_char byte
  | Read_char
  | Get_timer_value
  | Set_timer_value int
  | Qemu_chr_fe_write "byte list"
  | Qemu_chr_fe_set_echo bool
  | Fprintf_stderr string
  | Exit int

subsection \<open>I/O addresses, relative to the start of the I/O region\<close>

definition KEYB_READ_ADDR :: u64 where "KEYB_READ_ADDR = 0x00"
definition SCREEN_WRITE_ADDR :: u64 where "SCREEN_WRITE_ADDR = 0x00"
definition CON_ECHO_WRITE_ADDR :: u64 where "CON_ECHO_WRITE_ADDR = 0x01"
definition TIMER_READ_ADDR :: u64 where "TIMER_READ_ADDR = 0x02"
definition TIMER_WRITE_ADDR :: u64 where "TIMER_WRITE_ADDR = 0x02"

subsection \<open>Printing with \<open>%llu\<close>\<close>

definition digit :: "nat \<Rightarrow> char" where
  "digit d = ''0123456789'' ! d"

function llu_nat :: "nat \<Rightarrow> string" where
  "llu_nat n = (if n < 10 then [digit n] else llu_nat (n div 10) @ [digit (n mod 10)])"
  by pat_completeness auto
termination
  by (relation "measure id") auto

declare llu_nat.simps [simp del]

text \<open>\<open>(unsigned long long)x\<close> printed with \<open>%llu\<close>: the decimal digits of the value.\<close>

definition llu :: "u64 \<Rightarrow> string" where
  "llu x = llu_nat (unat x)"

subsection \<open>The console's read handler\<close>

definition can_read_handler :: int where
  "can_read_handler = 1"

text \<open>
  The body of the loop of \<open>read_handler\<close> for the byte \<open>data[i]\<close>: one call, chosen by
  the if-else chain.
\<close>

definition read_handler_body :: "byte \<Rightarrow> effect" where
  "read_handler_body d =
     (if d = of_char CHR ''/'' then Cpu_interrupt CPU_INTERRUPT_IRQ
      else if d = of_char CHR ''*'' then Cpu_interrupt CPU_INTERRUPT_NMI
      else if d = of_char CHR ''-'' then Cpu_interrupt CPU_INTERRUPT_RESET
      else Write_char d)"

text \<open>
  \<open>for(i = 0; i < datalen; i++)\<close> over the buffer \<open>data\<close>. Reading \<open>data[i]\<close> beyond
  the buffer is undefined in C; the model gives \<open>None\<close> there.
\<close>

function read_handler_loop :: "byte list \<Rightarrow> int \<Rightarrow> int \<Rightarrow> effect list option" where
  "read_handler_loop data datalen i =
     (if i < datalen then
        (if 0 \<le> i \<and> nat i < length data then
           map_option (\<lambda>rest. read_handler_body (data ! nat i) # rest)
             (read_handler_loop data datalen (i + 1))
         else None)
      else Some [])"
  by pat_completeness auto
termination
  by (relation "measure (\<lambda>(data, datalen, i). nat (datalen - i))") auto

declare read_handler_loop.simps [simp del]

definition read_handler :: "byte list \<Rightarrow> int \<Rightarrow> effect list option" where
  "read_handler data datalen = read_handler_loop data datalen 0"

subsection \<open>The timer's tick callback\<close>

definition timer_callback :: "effect list" where
  "timer_callback = [Cpu_interrupt CPU_INTERRUPT_IRQ]"

subsection \<open>The handlers of the I/O region\<close>

text \<open>
  What the keyboard's \<open>read_char()\<close> and the timer's \<open>get_timer_value()\<close> return when
  called, converted to the \<open>uint64_t\<close> that \<open>io_read\<close> returns.
\<close>

record devices =
  read_char :: u64
  get_timer_value :: u64

definition io_read :: "devices \<Rightarrow> u64 \<Rightarrow> 32 word \<Rightarrow> u64 \<times> effect list" where
  "io_read dev addr sz =
     (if addr = KEYB_READ_ADDR then (read_char dev, [Read_char])
      else if addr = TIMER_READ_ADDR then (get_timer_value dev, [Get_timer_value])
      else (0, [Fprintf_stderr (''Reading IO address '' @ llu addr @ ''.'' @ [CHR 0x0A])]))"

text \<open>
  \<open>io_write\<close> hands \<open>value\<close>, a \<open>uint64_t\<close>, to \<open>set_timer_value\<close>. The prototype of
  that function is in \<open>6502_timer.h\<close>, which is not in this file, so what the call's
  implicit conversion to the parameter type keeps of the value is not known here. The
  conversion is the parameter \<open>timer_param\<close>, and \<open>Set_timer_value\<close> records the
  value the timer receives: for a parameter of type \<open>uint8_t\<close> the conversion is
  \<open>\<lambda>v. uint (ucast v :: byte)\<close>, for one of 64 bits it is \<open>uint\<close>.
\<close>

definition io_write :: "(u64 \<Rightarrow> int) \<Rightarrow> u64 \<Rightarrow> u64 \<Rightarrow> 32 word \<Rightarrow> effect list" where
  "io_write timer_param addr val sz =
     (if addr = SCREEN_WRITE_ADDR then
        (let c = (ucast val :: byte) in
           Qemu_chr_fe_write [c] #
           (if c = of_char (CHR 0x0A) then [Qemu_chr_fe_write [of_char (CHR 0x0D)]] else []))
      else if addr = CON_ECHO_WRITE_ADDR then [Qemu_chr_fe_set_echo (val \<noteq> 0)]
      else if addr = TIMER_WRITE_ADDR then [Set_timer_value (timer_param val)]
      else [Fprintf_stderr (''Writting '' @ llu val @ '' in IO address '' @ llu addr
              @ ''.'' @ [CHR 0x0A])])"

subsection \<open>What a run of effects does to each collaborator\<close>

text \<open>The bytes handed to the console by \<open>qemu_chr_fe_write\<close>, in order.\<close>

fun console_output :: "effect list \<Rightarrow> byte list" where
  "console_output [] = []"
| "console_output (Qemu_chr_fe_write bs # es) = bs @ console_output es"
| "console_output (e # es) = console_output es"

text \<open>The interrupts asserted on the CPU by \<open>cpu_interrupt\<close>, in order.\<close>

fun interrupts :: "effect list \<Rightarrow> interrupt list" where
  "interrupts [] = []"
| "interrupts (Cpu_interrupt irq # es) = irq # interrupts es"
| "interrupts (e # es) = interrupts es"

text \<open>The bytes handed to the keyboard buffer by \<open>write_char\<close>, in order.\<close>

fun keyboard_input :: "effect list \<Rightarrow> byte list" where
  "keyboard_input [] = []"
| "keyboard_input (Write_char c # es) = c # keyboard_input es"
| "keyboard_input (e # es) = keyboard_input es"

text \<open>The console's echo setting after a run that starts with the setting \<open>echo\<close>.\<close>

fun echo_after :: "bool \<Rightarrow> effect list \<Rightarrow> bool" where
  "echo_after echo [] = echo"
| "echo_after echo (Qemu_chr_fe_set_echo b # es) = echo_after b es"
| "echo_after echo (e # es) = echo_after echo es"

text \<open>The values the timer receives through \<open>set_timer_value\<close>, in order.\<close>

fun timer_writes :: "effect list \<Rightarrow> int list" where
  "timer_writes [] = []"
| "timer_writes (Set_timer_value v # es) = v # timer_writes es"
| "timer_writes (e # es) = timer_writes es"

text \<open>A line printed on stderr is the only effect that reaches no collaborator.\<close>

fun is_diagnostic :: "effect \<Rightarrow> bool" where
  "is_diagnostic (Fprintf_stderr msg) = True"
| "is_diagnostic e = False"

fun is_exit :: "effect \<Rightarrow> bool" where
  "is_exit (Exit status) = True"
| "is_exit e = False"


subsection \<open>The access sizes of \<open>io_ops\<close>\<close>

text \<open>
  \<open>io_ops\<close> hands \<open>io_read\<close> and \<open>io_write\<close> to the I/O region and declares accesses
  of 1 to 4 bytes valid, aligned or not.
\<close>

record access_sizes =
  min_access_size :: nat
  max_access_size :: nat
  unaligned :: bool

definition io_ops_valid :: access_sizes where
  "io_ops_valid = \<lparr>min_access_size = 1, max_access_size = 4, unaligned = True\<rparr>"

definition io_ops_impl :: access_sizes where
  "io_ops_impl = \<lparr>min_access_size = 1, max_access_size = 4, unaligned = True\<rparr>"

definition valid_access :: "32 word \<Rightarrow> bool" where
  "valid_access sz =
     (min_access_size io_ops_valid \<le> unat sz \<and> unat sz \<le> max_access_size io_ops_valid)"

subsection \<open>The machine that \<open>mos6502_init\<close> builds\<close>

text \<open>
  \<open>memory_region_init_ram\<close> makes a region backed by a block of RAM of its own,
  \<open>memory_region_init_io\<close> one backed by the handlers of \<open>io_ops\<close>.
\<close>

datatype region_kind = RAM | IO

record memory_region =
  name :: string
  region_size :: nat
  kind :: region_kind
  readonly :: bool

text \<open>
  The state the bootstrap builds up: the CPU's program counter, the subregions of the
  system address space with their base addresses, in the order they were added, the
  bytes of each RAM block (by the region's name and the offset in it), and the effects
  performed so far.
\<close>

record machine =
  pc :: nat
  subregions :: "(nat \<times> memory_region) list"
  ram :: "string \<Rightarrow> nat \<Rightarrow> byte"
  effects :: "effect list"

datatype outcome = Ready machine | Exited int machine

fun machine_of :: "outcome \<Rightarrow> machine" where
  "machine_of (Ready m) = m"
| "machine_of (Exited status m) = m"

definition perform :: "effect \<Rightarrow> machine \<Rightarrow> machine" where
  "perform e m = m\<lparr>effects := effects m @ [e]\<rparr>"

definition cpu_init :: machine where
  "cpu_init = \<lparr>pc = 0, subregions = [], ram = (\<lambda>r off. 0), effects = [Cpu_init]\<rparr>"

definition set_pc :: "nat \<Rightarrow> machine \<Rightarrow> machine" where
  "set_pc a m = perform (Set_pc a) (m\<lparr>pc := a\<rparr>)"

definition memory_region_init_ram ::
  "string \<Rightarrow> nat \<Rightarrow> machine \<Rightarrow> memory_region \<times> machine" where
  "memory_region_init_ram nm sz m =
     (\<lparr>name = nm, region_size = sz, kind = RAM, readonly = False\<rparr>,
      perform (Memory_region_init_ram nm sz) m)"

definition memory_region_init_io ::
  "string \<Rightarrow> nat \<Rightarrow> machine \<Rightarrow> memory_region \<times> machine" where
  "memory_region_init_io nm sz m =
     (\<lparr>name = nm, region_size = sz, kind = IO, readonly = False\<rparr>,
      perform (Memory_region_init_io nm sz) m)"

definition memory_region_set_readonly ::
  "memory_region \<Rightarrow> bool \<Rightarrow> machine \<Rightarrow> memory_region \<times> machine" where
  "memory_region_set_readonly r b m =
     (r\<lparr>readonly := b\<rparr>, perform (Memory_region_set_readonly (name r) b) m)"

definition vmstate_register_ram_global :: "memory_region \<Rightarrow> machine \<Rightarrow> machine" where
  "vmstate_register_ram_global r m = perform (Vmstate_register_ram_global (name r)) m"

definition memory_region_add_subregion ::
  "nat \<Rightarrow> memory_region \<Rightarrow> machine \<Rightarrow> machine" where
  "memory_region_add_subregion base r m =
     perform (Memory_region_add_subregion base (name r))
       (m\<lparr>subregions := subregions m @ [(base, r)]\<rparr>)"

text \<open>
  The part of \<open>mos6502_init\<close> that creates the five regions and adds them to the system
  address space (lines 140 to 180), with the sizes as the source computes them.
\<close>

definition init_regions :: "machine \<Rightarrow> machine" where
  "init_regions m0 =
     (let m = perform Get_system_memory m0;
          (ram1, m) = memory_region_init_ram ''6502.ram1'' (0x0FFF - 0x0000 + 1) m;
          m = vmstate_register_ram_global ram1 m;
          m = memory_region_add_subregion 0x0000 ram1 m;
          (rom, m) = memory_region_init_ram ''6502.rom'' (0x1FFF - 0x1000 + 1) m;
          (rom, m) = memory_region_set_readonly rom True m;
          m = vmstate_register_ram_global rom m;
          m = memory_region_add_subregion 0x1000 rom m;
          (ram2, m) = memory_region_init_ram ''6502.ram2'' (0xFFEF - 0x2000 + 1) m;
          m = vmstate_register_ram_global ram2 m;
          m = memory_region_add_subregion 0x2000 ram2 m;
          (io, m) = memory_region_init_io ''6502.io'' (0xFEFF - 0xFE00 + 1) m;
          m = memory_region_add_subregion 0xFE00 io m;
          (ram3, m) = memory_region_init_ram ''6502.ram3'' (0xFFFF - 0xFF00 + 1) m;
          m = vmstate_register_ram_global ram3 m;
          m = memory_region_add_subregion 0xFF00 ram3 m
      in m)"

text \<open>
  The five subregions with their sizes evaluated, as \<open>init_regions\<close> leaves them in the
  address space (lemma \<open>subregions_init_regions\<close> below).
\<close>

definition registered_regions :: "(nat \<times> memory_region) list" where
  "registered_regions =
     [(0x0000, \<lparr>name = ''6502.ram1'', region_size = 0x1000, kind = RAM, readonly = False\<rparr>),
      (0x1000, \<lparr>name = ''6502.rom'', region_size = 0x1000, kind = RAM, readonly = True\<rparr>),
      (0x2000, \<lparr>name = ''6502.ram2'', region_size = 0xDFF0, kind = RAM, readonly = False\<rparr>),
      (0xFE00, \<lparr>name = ''6502.io'', region_size = 0x100, kind = IO, readonly = False\<rparr>),
      (0xFF00, \<lparr>name = ''6502.ram3'', region_size = 0x100, kind = RAM, readonly = False\<rparr>)]"

text \<open>The ROM region as it stands in the address space.\<close>

definition rom_region :: memory_region where
  "rom_region = \<lparr>name = ''6502.rom'', region_size = 0x1000, kind = RAM, readonly = True\<rparr>"

text \<open>
  The layout that the comment above the region code documents: address range, function
  and size in bytes of each of the five regions.
\<close>

datatype region_function = Fn_RAM | Fn_ROM | Fn_IO

definition documented_layout :: "(nat \<times> nat \<times> region_function \<times> nat) list" where
  "documented_layout =
     [(0x0000, 0x0FFF, Fn_RAM, 4096),
      (0x1000, 0x1FFF, Fn_ROM, 4096),
      (0x2000, 0xFDFF, Fn_RAM, 56832),
      (0xFE00, 0xFEFF, Fn_IO, 256),
      (0xFF00, 0xFFFF, Fn_RAM, 256)]"

text \<open>The layout that was registered, in the same form: base, last address, kind, size.\<close>

definition function_of :: "memory_region \<Rightarrow> region_function" where
  "function_of r = (case kind r of IO \<Rightarrow> Fn_IO | RAM \<Rightarrow> if readonly r then Fn_ROM else Fn_RAM)"

definition registered_layout :: "machine \<Rightarrow> (nat \<times> nat \<times> region_function \<times> nat) list" where
  "registered_layout m =
     map (\<lambda>(base, r). (base, base + region_size r - 1, function_of r, region_size r))
       (subregions m)"

text \<open>A region covers the addresses of \<open>[base, base + size)\<close>.\<close>

definition covers :: "nat \<times> memory_region \<Rightarrow> nat \<Rightarrow> bool" where
  "covers br a = (fst br \<le> a \<and> a < fst br + region_size (snd br))"

definition regions_covering :: "machine \<Rightarrow> nat \<Rightarrow> (nat \<times> memory_region) list" where
  "regions_covering m a = filter (\<lambda>br. covers br a) (subregions m)"

text \<open>
  Modelled from the spec: the address dispatcher of the memory core, which is not in
  this file. It is to "locate the unique region whose [base, base+size) contains the
  address"; where no region or more than one contains it, there is none to dispatch to.
\<close>

definition region_at :: "machine \<Rightarrow> nat \<Rightarrow> (nat \<times> memory_region) option" where
  "region_at m a = (case regions_covering m a of [br] \<Rightarrow> Some br | _ \<Rightarrow> None)"

text \<open>
  Modelled from the spec: the store of one byte by the image loader, which is not in this
  file. The image is "loaded verbatim starting at the region's base address", so the
  byte goes into the RAM block of the region that contains its address, at the offset
  from the region's base, whether the region is read-only or not.
\<close>

definition store_byte :: "nat \<Rightarrow> byte \<Rightarrow> machine \<Rightarrow> machine" where
  "store_byte a b m =
     (case region_at m a of
        None \<Rightarrow> m
      | Some (base, r) \<Rightarrow>
          (case kind r of
             IO \<Rightarrow> m
           | RAM \<Rightarrow> m\<lparr>ram := (ram m)(name r := (ram m (name r))(a - base := b))\<rparr>))"

text \<open>
  Modelled from the spec: the image loader's store of the whole image, "with no header
  or checksum": byte after byte at consecutive addresses.
\<close>

fun store_image :: "nat \<Rightarrow> byte list \<Rightarrow> machine \<Rightarrow> machine" where
  "store_image a [] m = m"
| "store_image a (b # bs) m = store_image (a + 1) bs (store_byte a b m)"

text \<open>
  Modelled from the spec: the image loader \<open>load_image_targphys\<close>, which is not in this
  file. It is "load(path, destination\_region, max\_size) -> success|failure": the image
  is a flat blob "whose length must not exceed the ROM region's size", and loading fails
  "if the image cannot be read or does not fit the region". \<open>files\<close> gives the bytes
  of each file that can be read. The result is negative on failure, which is what the
  caller tests, and the length of the image on success.
\<close>

definition load_image_targphys ::
  "(string \<rightharpoonup> byte list) \<Rightarrow> string \<Rightarrow> nat \<Rightarrow> nat \<Rightarrow> machine \<Rightarrow> int \<times> machine" where
  "load_image_targphys files filename addr max_sz m =
     (let m = perform (Load_image_targphys filename addr max_sz) m in
      case files filename of
        None \<Rightarrow> (- 1, m)
      | Some img \<Rightarrow>
          if length img > max_sz then (- 1, m)
          else (int (length img), store_image addr img m))"

definition BIOS_FILENAME :: string where
  "BIOS_FILENAME = ''6502_bios.rom''"

text \<open>
  The part of \<open>mos6502_init\<close> that creates the console, selects it, registers the read
  handler with it and starts the keyboard buffer and the timer (lines 193 to 222).
\<close>

definition init_console :: "machine \<Rightarrow> machine" where
  "init_console m0 =
     (let m = perform (Qemu_opts_create ''6502.console'') m0;
          m = perform (Qemu_opt_set ''cols'' ''80'') m;
          m = perform (Qemu_opt_set ''rows'' ''25'') m;
          m = perform Text_console_init m;
          m = perform Get_displaystate m;
          m = perform Text_consoles_set_display m;
          m = perform (Console_select 3) m;
          m = perform (Qemu_chr_add_handlers Can_read_handler Read_handler) m;
          m = perform Init_keyboard m;
          m = perform (Init_timer Timer_callback) m
      in m)"

text \<open>
  \<open>mos6502_init\<close>. \<open>bios_name\<close> is the global of that name (\<open>None\<close> for \<open>NULL\<close>);
  \<open>exit(-1)\<close> ends the bootstrap with \<open>Exited\<close>, and returning from the
  function with \<open>Ready\<close>.
\<close>

definition mos6502_init :: "(string \<rightharpoonup> byte list) \<Rightarrow> string option \<Rightarrow> outcome" where
  "mos6502_init files bios_name =
     (let m = cpu_init;
          m = set_pc 0x1000 m;
          m = init_regions m;
          bios_name = (case bios_name of None \<Rightarrow> BIOS_FILENAME | Some f \<Rightarrow> f);
          (rc, m) = load_image_targphys files bios_name 0x1000 (0x1FFF - 0x1000 + 1) m
      in if rc < 0 then
           (let m = perform (Fprintf_stderr
                      (''Error loading bios file: '' @ bios_name @ [CHR 0x0A])) m;
                m = perform (Exit (- 1)) m
            in Exited (- 1) m)
         else Ready (init_console m))"

text \<open>
  Modelled from the spec: a CPU write of one byte, dispatched by the memory core, which
  is not in this file. The access goes "to that region's storage (RAM/ROM: direct byte
  array access) or handler (IO)", the handler receiving the offset within the I/O region;
  "ROM write attempts must be rejected/ignored". A write to an address with no region to
  dispatch to stores nothing (the line it logs, whose wording the spec does not give, is
  left out). \<open>timer_param\<close> is the one that \<open>io_write\<close> takes.
\<close>

definition mem_write :: "(u64 \<Rightarrow> int) \<Rightarrow> nat \<Rightarrow> byte \<Rightarrow> machine \<Rightarrow> machine" where
  "mem_write timer_param a b m =
     (case region_at m a of
        None \<Rightarrow> m
      | Some (base, r) \<Rightarrow>
          (case kind r of
             IO \<Rightarrow>
               m\<lparr>effects := effects m @ io_write timer_param (of_nat (a - base)) (ucast b) 1\<rparr>
           | RAM \<Rightarrow>
               if readonly r then m
               else m\<lparr>ram := (ram m)(name r := (ram m (name r))(a - base := b))\<rparr>))"

text \<open>
  Modelled from the spec: a CPU read of one byte, dispatched the same way: from the
  region's storage, or from \<open>io_read\<close> at the offset within the I/O region; a read with
  no region to dispatch to "returns a default value (0)".
\<close>

definition mem_read :: "devices \<Rightarrow> nat \<Rightarrow> machine \<Rightarrow> byte \<times> machine" where
  "mem_read dev a m =
     (case region_at m a of
        None \<Rightarrow> (0, m)
      | Some (base, r) \<Rightarrow>
          (case kind r of
             IO \<Rightarrow>
               (let (v, es) = io_read dev (of_nat (a - base)) 1
                in (ucast v, m\<lparr>effects := effects m @ es\<rparr>))
           | RAM \<Rightarrow> (ram m (name r) (a - base), m)))"

text \<open>
  Modelled from the spec: a run of CPU writes, each an address and a byte, in order, as
  the single thread of CPU execution issues them.
\<close>

fun mem_writes :: "(u64 \<Rightarrow> int) \<Rightarrow> (nat \<times> byte) list \<Rightarrow> machine \<Rightarrow> machine" where
  "mem_writes timer_param [] m = m"
| "mem_writes timer_param ((a, b) # ws) m =
     mem_writes timer_param ws (mem_write timer_param a b m)"

subsection \<open>The phases of the bootstrap\<close>

text \<open>
  The bootstrap's effects sorted into the steps that the design document lists in order:
  0 for creating and adding the regions, 1 for loading the ROM image, 2 for initialising
  the CPU and its program counter, 3 for the console, the keyboard buffer, the timer and
  the registration of their callbacks. Effects that belong to no step count as 4.
\<close>

fun documented_phase :: "effect \<Rightarrow> nat" where
  "documented_phase Get_system_memory = 0"
| "documented_phase (Memory_region_init_ram nm sz) = 0"
| "documented_phase (Memory_region_init_io nm sz) = 0"
| "documented_phase (Memory_region_set_readonly nm b) = 0"
| "documented_phase (Vmstate_register_ram_global nm) = 0"
| "documented_phase (Memory_region_add_subregion base nm) = 0"
| "documented_phase (Load_image_targphys f a sz) = 1"
| "documented_phase Cpu_init = 2"
| "documented_phase (Set_pc a) = 2"
| "documented_phase (Qemu_opts_create nm) = 3"
| "documented_phase (Qemu_opt_set k v) = 3"
| "documented_phase Text_console_init = 3"
| "documented_phase Get_displaystate = 3"
| "documented_phase Text_consoles_set_display = 3"
| "documented_phase (Console_select n) = 3"
| "documented_phase (Qemu_chr_add_handlers c r) = 3"
| "documented_phase Init_keyboard = 3"
| "documented_phase (Init_timer t) = 3"
| "documented_phase e = 4"

section \<open>Properties\<close>

subsection \<open>Basic facts\<close>

lemmas io_addr_defs =
  KEYB_READ_ADDR_def SCREEN_WRITE_ADDR_def CON_ECHO_WRITE_ADDR_def
  TIMER_READ_ADDR_def TIMER_WRITE_ADDR_def

lemma llu_small: "llu 1 = ''1''" "llu 3 = ''3''" "llu 7 = ''7''"
  by (simp_all add: llu_def llu_nat.simps digit_def)

lemma interrupts_append: "interrupts (es @ fs) = interrupts es @ interrupts fs"
  by (induction es rule: interrupts.induct) simp_all

lemma timer_writes_append: "timer_writes (es @ fs) = timer_writes es @ timer_writes fs"
  by (induction es rule: timer_writes.induct) simp_all

lemma perform_simps [simp]:
  "pc (perform e m) = pc m" "subregions (perform e m) = subregions m"
  "ram (perform e m) = ram m" "effects (perform e m) = effects m @ [e]"
  by (simp_all add: perform_def)

lemmas region_api_defs =
  memory_region_init_ram_def memory_region_init_io_def memory_region_set_readonly_def
  vmstate_register_ram_global_def memory_region_add_subregion_def

lemma subregions_init_regions:
  "subregions (init_regions m) = subregions m @ registered_regions"
  by (simp add: init_regions_def region_api_defs registered_regions_def Let_def)

lemma pc_init_regions: "pc (init_regions m) = pc m"
  by (simp add: init_regions_def region_api_defs Let_def)

lemma ram_init_regions: "ram (init_regions m) = ram m"
  by (simp add: init_regions_def region_api_defs Let_def)

lemma effects_init_regions:
  "effects (init_regions m) = effects m @
     [Get_system_memory,
      Memory_region_init_ram ''6502.ram1'' 0x1000,
      Vmstate_register_ram_global ''6502.ram1'',
      Memory_region_add_subregion 0x0000 ''6502.ram1'',
      Memory_region_init_ram ''6502.rom'' 0x1000,
      Memory_region_set_readonly ''6502.rom'' True,
      Vmstate_register_ram_global ''6502.rom'',
      Memory_region_add_subregion 0x1000 ''6502.rom'',
      Memory_region_init_ram ''6502.ram2'' 0xDFF0,
      Vmstate_register_ram_global ''6502.ram2'',
      Memory_region_add_subregion 0x2000 ''6502.ram2'',
      Memory_region_init_io ''6502.io'' 0x100,
      Memory_region_add_subregion 0xFE00 ''6502.io'',
      Memory_region_init_ram ''6502.ram3'' 0x100,
      Vmstate_register_ram_global ''6502.ram3'',
      Memory_region_add_subregion 0xFF00 ''6502.ram3'']"
  by (simp add: init_regions_def region_api_defs Let_def)

lemma init_console_frame [simp]:
  "pc (init_console m) = pc m" "subregions (init_console m) = subregions m"
  "ram (init_console m) = ram m"
  by (simp_all add: init_console_def Let_def)

lemma effects_init_console:
  "effects (init_console m) = effects m @
     [Qemu_opts_create ''6502.console'', Qemu_opt_set ''cols'' ''80'',
      Qemu_opt_set ''rows'' ''25'', Text_console_init, Get_displaystate,
      Text_consoles_set_display, Console_select 3,
      Qemu_chr_add_handlers Can_read_handler Read_handler, Init_keyboard,
      Init_timer Timer_callback]"
  by (simp add: init_console_def Let_def)

lemma store_byte_frame [simp]:
  "pc (store_byte a b m) = pc m" "subregions (store_byte a b m) = subregions m"
  "effects (store_byte a b m) = effects m"
  by (simp_all add: store_byte_def split: option.splits prod.splits region_kind.splits)

lemma store_image_frame [simp]:
  "pc (store_image a bs m) = pc m" "subregions (store_image a bs m) = subregions m"
  "effects (store_image a bs m) = effects m"
  by (induction bs arbitrary: a m) simp_all

lemma load_image_frame [simp]:
  "pc (snd (load_image_targphys files f a sz m)) = pc m"
  "subregions (snd (load_image_targphys files f a sz m)) = subregions m"
  "effects (snd (load_image_targphys files f a sz m)) = effects m @ [Load_image_targphys f a sz]"
  by (simp_all add: load_image_targphys_def Let_def split: option.splits)

lemma subregions_mos6502_init:
  "subregions (machine_of (mos6502_init files bios_name)) = registered_regions"
  by (simp add: mos6502_init_def Let_def split_beta subregions_init_regions
      set_pc_def cpu_init_def)

subsection \<open>The ROM region in the address space\<close>

lemma region_at_rom:
  "subregions m = registered_regions \<Longrightarrow> 0x1000 \<le> a \<Longrightarrow> a < 0x2000 \<Longrightarrow>
   region_at m a = Some (0x1000, rom_region)"
  by (simp add: region_at_def regions_covering_def covers_def registered_regions_def rom_region_def)

lemma store_byte_rom:
  "subregions m = registered_regions \<Longrightarrow> 0x1000 \<le> a \<Longrightarrow> a < 0x2000 \<Longrightarrow>
   ram (store_byte a b m) ''6502.rom'' = (ram m ''6502.rom'')(a - 0x1000 := b)"
  by (simp add: store_byte_def region_at_rom rom_region_def)

lemma store_image_rom:
  "subregions m = registered_regions \<Longrightarrow> k + length bs \<le> 0x1000 \<Longrightarrow>
   ram (store_image (0x1000 + k) bs m) ''6502.rom'' off =
     (if k \<le> off \<and> off < k + length bs then bs ! (off - k) else ram m ''6502.rom'' off)"
proof (induction bs arbitrary: k m)
  case Nil
  then show ?case by auto
next
  case (Cons b bs)
  have sub: "subregions (store_byte (0x1000 + k) b m) = registered_regions"
    using Cons.prems by simp
  have next_addr: "0x1000 + k + 1 = 0x1000 + Suc k"
    by simp
  have ih: "ram (store_image (0x1000 + Suc k) bs (store_byte (0x1000 + k) b m)) ''6502.rom'' off =
     (if Suc k \<le> off \<and> off < Suc k + length bs then bs ! (off - Suc k)
      else ram (store_byte (0x1000 + k) b m) ''6502.rom'' off)"
    using Cons.prems by (intro Cons.IH [OF sub]) simp
  have here: "ram (store_byte (0x1000 + k) b m) ''6502.rom'' =
                (ram m ''6502.rom'')(k := b)"
    using Cons.prems by (simp add: store_byte_rom)
  show ?case
  proof (cases "off = k")
    case True
    then show ?thesis
      unfolding store_image.simps next_addr ih here by simp
  next
    case False
    then have "(b # bs) ! (off - k) = bs ! (off - Suc k)" if "k \<le> off"
      using that by (simp add: nth_Cons')
    with False show ?thesis
      unfolding store_image.simps next_addr ih here by auto
  qed
qed

lemma mem_read_rom:
  "subregions m = registered_regions \<Longrightarrow> 0x1000 \<le> a \<Longrightarrow> a < 0x2000 \<Longrightarrow>
   mem_read dev a m = (ram m ''6502.rom'' (a - 0x1000), m)"
  by (simp add: mem_read_def region_at_rom rom_region_def)

lemma mem_write_rom:
  "subregions m = registered_regions \<Longrightarrow> 0x1000 \<le> a \<Longrightarrow> a < 0x2000 \<Longrightarrow>
   mem_write timer_param a b m = m"
  by (simp add: mem_write_def region_at_rom rom_region_def)

lemma region_at_member:
  "region_at m a = Some br \<Longrightarrow> br \<in> set (subregions m)"
proof -
  assume "region_at m a = Some br"
  then have "regions_covering m a = [br]"
    by (auto simp add: region_at_def split: list.splits)
  then have "br \<in> set (filter (\<lambda>br. covers br a) (subregions m))"
    by (simp add: regions_covering_def)
  then show ?thesis by simp
qed

lemma writable_not_rom:
  "(base, r) \<in> set registered_regions \<Longrightarrow> \<not> readonly r \<Longrightarrow> name r \<noteq> ''6502.rom''"
  by (auto simp add: registered_regions_def)

lemma mem_write_frame:
  "subregions (mem_write timer_param a b m) = subregions m"
  "pc (mem_write timer_param a b m) = pc m"
  by (simp_all add: mem_write_def split: option.splits prod.splits region_kind.splits)

lemma mem_write_keeps_rom:
  assumes "subregions m = registered_regions"
  shows "ram (mem_write timer_param a b m) ''6502.rom'' = ram m ''6502.rom''"
proof (cases "region_at m a")
  case None
  then show ?thesis by (simp add: mem_write_def)
next
  case (Some br)
  obtain base r where br: "br = (base, r)" by (cases br)
  from region_at_member [OF Some] assms br have "(base, r) \<in> set registered_regions"
    by simp
  then have "\<not> readonly r \<Longrightarrow> name r \<noteq> ''6502.rom''"
    by (rule writable_not_rom)
  with Some br show ?thesis
    by (cases "kind r") (auto simp add: mem_write_def)
qed

lemma mem_writes_keep_rom:
  "subregions m = registered_regions \<Longrightarrow>
   subregions (mem_writes timer_param ws m) = registered_regions
   \<and> ram (mem_writes timer_param ws m) ''6502.rom'' = ram m ''6502.rom''"
proof (induction ws arbitrary: m)
  case Nil
  then show ?case by simp
next
  case (Cons w ws)
  obtain a b where w: "w = (a, b)" by (cases w)
  from Cons.prems have "subregions (mem_write timer_param a b m) = registered_regions"
    by (simp add: mem_write_frame)
  from Cons.IH [OF this] mem_write_keeps_rom [OF Cons.prems, of timer_param a b] w
  show ?case by simp
qed

subsection \<open>The two ways the bootstrap ends\<close>

lemma boot_success:
  assumes "files (case bios_name of None \<Rightarrow> BIOS_FILENAME | Some f \<Rightarrow> f) = Some img"
    and "length img \<le> 0x1000"
  shows "mos6502_init files bios_name =
     Ready (init_console (store_image 0x1000 img
       (perform (Load_image_targphys (case bios_name of None \<Rightarrow> BIOS_FILENAME | Some f \<Rightarrow> f)
          0x1000 0x1000) (init_regions (set_pc 0x1000 cpu_init)))))"
  using assms by (simp add: mos6502_init_def load_image_targphys_def Let_def)

lemma boot_failure:
  assumes "files (case bios_name of None \<Rightarrow> BIOS_FILENAME | Some f \<Rightarrow> f) = None
     \<or> (\<exists>img. files (case bios_name of None \<Rightarrow> BIOS_FILENAME | Some f \<Rightarrow> f) = Some img
           \<and> 0x1000 < length img)"
  shows "mos6502_init files bios_name =
     Exited (- 1)
       (perform (Exit (- 1))
         (perform (Fprintf_stderr (''Error loading bios file: ''
              @ (case bios_name of None \<Rightarrow> BIOS_FILENAME | Some f \<Rightarrow> f) @ [CHR 0x0A]))
           (perform (Load_image_targphys
               (case bios_name of None \<Rightarrow> BIOS_FILENAME | Some f \<Rightarrow> f) 0x1000 0x1000)
             (init_regions (set_pc 0x1000 cpu_init)))))"
  using assms by (auto simp add: mos6502_init_def load_image_targphys_def Let_def)

lemma boot_ready_image:
  assumes "mos6502_init files bios_name = Ready m"
  shows "\<exists>img. files (case bios_name of None \<Rightarrow> BIOS_FILENAME | Some f \<Rightarrow> f) = Some img
           \<and> length img \<le> 0x1000"
proof (cases "files (case bios_name of None \<Rightarrow> BIOS_FILENAME | Some f \<Rightarrow> f)")
  case None
  then show ?thesis using boot_failure [of files bios_name] assms by simp
next
  case (Some img)
  show ?thesis
  proof (cases "length img \<le> 0x1000")
    case True
    with Some show ?thesis by simp
  next
    case False
    with Some boot_failure [of files bios_name] assms show ?thesis by simp
  qed
qed

lemma pc_boot: "pc (init_regions (set_pc 0x1000 cpu_init)) = 0x1000"
  by (simp add: pc_init_regions set_pc_def cpu_init_def)

lemma effects_boot:
  "effects (init_regions (set_pc 0x1000 cpu_init)) =
     [Cpu_init, Set_pc 0x1000,
      Get_system_memory,
      Memory_region_init_ram ''6502.ram1'' 0x1000,
      Vmstate_register_ram_global ''6502.ram1'',
      Memory_region_add_subregion 0x0000 ''6502.ram1'',
      Memory_region_init_ram ''6502.rom'' 0x1000,
      Memory_region_set_readonly ''6502.rom'' True,
      Vmstate_register_ram_global ''6502.rom'',
      Memory_region_add_subregion 0x1000 ''6502.rom'',
      Memory_region_init_ram ''6502.ram2'' 0xDFF0,
      Vmstate_register_ram_global ''6502.ram2'',
      Memory_region_add_subregion 0x2000 ''6502.ram2'',
      Memory_region_init_io ''6502.io'' 0x100,
      Memory_region_add_subregion 0xFE00 ''6502.io'',
      Memory_region_init_ram ''6502.ram3'' 0x100,
      Vmstate_register_ram_global ''6502.ram3'',
      Memory_region_add_subregion 0xFF00 ''6502.ram3'']"
  by (simp add: effects_init_regions set_pc_def cpu_init_def)

lemma boot_nop:
  "mos6502_init [''6502_bios.rom'' \<mapsto> [0xEA]] None =
     Ready (machine_of (mos6502_init [''6502_bios.rom'' \<mapsto> [0xEA]] None))"
  using boot_success [of "[''6502_bios.rom'' \<mapsto> [0xEA]]" None "[0xEA]"]
  by (simp add: BIOS_FILENAME_def)


subsection \<open>The region table\<close>

text \<open>
  C1. The bootstrap registers five regions, but not the five of the documented layout:
  the third is created with \<open>0xFFEF - 0x2000 + 1\<close> = 57328 bytes, so it runs from 0x2000
  to 0xFFEF where the layout table in the source says 0x2000 to 0xFDFF, 56832 bytes. The
  regions are therefore not pairwise disjoint: address 0xFE00 lies in both the second RAM
  block and the I/O region, address 0xFF00 in both the second and the third RAM block.
\<close>

theorem ram2_overlaps_io:
  "registered_layout (machine_of (mos6502_init files bios_name)) =
     [(0x0000, 0x0FFF, Fn_RAM, 4096),
      (0x1000, 0x1FFF, Fn_ROM, 4096),
      (0x2000, 0xFFEF, Fn_RAM, 57328),
      (0xFE00, 0xFEFF, Fn_IO, 256),
      (0xFF00, 0xFFFF, Fn_RAM, 256)]
   \<and> registered_layout (machine_of (mos6502_init files bios_name)) \<noteq> documented_layout
   \<and> map (name \<circ> snd) (regions_covering (machine_of (mos6502_init files bios_name)) 0xFE00)
       = [''6502.ram2'', ''6502.io'']
   \<and> map (name \<circ> snd) (regions_covering (machine_of (mos6502_init files bios_name)) 0xFF00)
       = [''6502.ram2'', ''6502.ram3'']"
  by (simp add: registered_layout_def regions_covering_def covers_def
      subregions_mos6502_init registered_regions_def function_of_def documented_layout_def)

subsection \<open>Routing console bytes\<close>

text \<open>
  The loop from index \<open>i\<close> on: nothing when \<open>i\<close> has reached \<open>datalen\<close>, the bodies
  of the bytes \<open>i\<close> to \<open>datalen - 1\<close> when the buffer holds that many, and a read
  beyond the buffer otherwise.
\<close>

lemma read_handler_loop_eq:
  "0 \<le> i \<Longrightarrow>
   read_handler_loop data datalen i =
     (if datalen \<le> i then Some []
      else if datalen \<le> int (length data)
        then Some (map read_handler_body (drop (nat i) (take (nat datalen) data)))
        else None)"
proof (induction data datalen i rule: read_handler_loop.induct)
  case (1 data datalen i)
  show ?case
  proof (cases "i < datalen")
    case False
    then show ?thesis by (simp add: read_handler_loop.simps [of data datalen i])
  next
    case running: True
    show ?thesis
    proof (cases "nat i < length data")
      case False
      with running "1.prems" show ?thesis
        by (simp add: read_handler_loop.simps [of data datalen i])
    next
      case inside: True
      from running inside "1.prems" have ih:
        "read_handler_loop data datalen (i + 1) =
           (if datalen \<le> i + 1 then Some []
            else if datalen \<le> int (length data)
              then Some (map read_handler_body (drop (nat (i + 1)) (take (nat datalen) data)))
              else None)"
        by (intro "1.IH") simp_all
      from running inside "1.prems" have len: "nat i < length (take (nat datalen) data)"
        by simp
      have step: "drop (nat i) (take (nat datalen) data) =
                    data ! nat i # drop (nat (i + 1)) (take (nat datalen) data)"
        using Cons_nth_drop_Suc [OF len] running "1.prems"
        by (simp add: nat_add_distrib)
      show ?thesis
      proof (cases "datalen \<le> int (length data)")
        case True
        with running inside "1.prems" ih step show ?thesis
          by (simp add: read_handler_loop.simps [of data datalen i])
      next
        case False
        with running inside "1.prems" ih show ?thesis
          by (simp add: read_handler_loop.simps [of data datalen i])
      qed
    qed
  qed
qed

lemma read_handler_body_code:
  "read_handler_body b =
     (if b = 0x2F then Cpu_interrupt CPU_INTERRUPT_IRQ
      else if b = 0x2A then Cpu_interrupt CPU_INTERRUPT_NMI
      else if b = 0x2D then Cpu_interrupt CPU_INTERRUPT_RESET
      else Write_char b)"
  by (simp add: read_handler_body_def)

text \<open>
  C2. The read handler turns a buffer of \<open>datalen\<close> bytes into one effect per byte, in
  the order of the bytes: for \<open>'/'\<close> (0x2F) the IRQ is asserted and nothing else, for
  \<open>'*'\<close> (0x2A) the NMI, for \<open>'-'\<close> (0x2D) the RESET, and every other byte is handed
  to the keyboard buffer with \<open>write_char\<close> and asserts no interrupt. Each byte is
  classified by its own value alone. (A \<open>datalen\<close> beyond the buffer is a read out of
  bounds.)
\<close>

theorem read_handler_routes:
  "read_handler data datalen =
     (if datalen \<le> int (length data) then
        Some (map (\<lambda>b. if b = 0x2F then Cpu_interrupt CPU_INTERRUPT_IRQ
                        else if b = 0x2A then Cpu_interrupt CPU_INTERRUPT_NMI
                        else if b = 0x2D then Cpu_interrupt CPU_INTERRUPT_RESET
                        else Write_char b)
               (take (nat datalen) data))
      else None)"
proof -
  have body: "read_handler_body =
     (\<lambda>b. if b = 0x2F then Cpu_interrupt CPU_INTERRUPT_IRQ
           else if b = 0x2A then Cpu_interrupt CPU_INTERRUPT_NMI
           else if b = 0x2D then Cpu_interrupt CPU_INTERRUPT_RESET
           else Write_char b)"
    by (rule ext) (rule read_handler_body_code)
  show ?thesis
    unfolding read_handler_def read_handler_loop_eq [of 0 data datalen, simplified]
      body [symmetric]
    by simp
qed

text \<open>
  The console bytes \<open>"A/B"\<close>, run through the loop: \<open>'A'\<close> goes to the keyboard
  buffer, the IRQ is asserted once, \<open>'B'\<close> goes to the keyboard buffer, and neither NMI
  nor RESET is asserted.
\<close>

lemma read_handler_example:
  "read_handler [0x41, 0x2F, 0x42] 3 =
     Some [Write_char 0x41, Cpu_interrupt CPU_INTERRUPT_IRQ, Write_char 0x42]
   \<and> map_option keyboard_input (read_handler [0x41, 0x2F, 0x42] 3) = Some [0x41, 0x42]
   \<and> map_option interrupts (read_handler [0x41, 0x2F, 0x42] 3) = Some [CPU_INTERRUPT_IRQ]"
  by (simp add: read_handler_def read_handler_loop.simps read_handler_body_def)

subsection \<open>The timer tick\<close>

text \<open>
  C5. A timer tick does one thing: it asserts the IRQ. It asserts neither NMI nor RESET,
  and it neither reads nor sets the timer's counter, so after any history \<open>es\<close> of
  effects, whatever values the counter was given in it, the tick adds exactly the IRQ to
  the interrupts asserted and leaves the values written to the timer as they were.
\<close>

theorem timer_tick_asserts_irq:
  "timer_callback = [Cpu_interrupt CPU_INTERRUPT_IRQ]
   \<and> interrupts (es @ timer_callback) = interrupts es @ [CPU_INTERRUPT_IRQ]
   \<and> timer_writes (es @ timer_callback) = timer_writes es"
  by (simp add: timer_callback_def interrupts_append timer_writes_append)

subsection \<open>Writing to the screen\<close>

text \<open>
  C3. A write at I/O offset 0x00 hands the console the low byte of the value; when that
  byte is the line feed, the console receives two bytes, line feed then carriage return,
  and otherwise exactly that one byte. Nothing else happens: every effect of the write is
  a console write of one byte.
\<close>

theorem io_write_screen:
  "console_output (io_write timer_param 0x00 val sz) =
     (if (ucast val :: byte) = 0x0A then [0x0A, 0x0D] else [ucast val])
   \<and> io_write timer_param 0x00 val sz =
     map (\<lambda>b. Qemu_chr_fe_write [b])
       (console_output (io_write timer_param 0x00 val sz))"
  by (simp add: io_write_def io_addr_defs Let_def)

subsection \<open>Offsets with no device\<close>

text \<open>
  C4. At an I/O offset other than 0x00 and 0x02 a read prints one line on stderr and
  returns 0; at an offset other than 0x00, 0x01 and 0x02 a write prints one line on
  stderr and does nothing with the value. At no offset does a read or a write end the
  process.
\<close>

theorem io_unmatched_offsets:
  "(addr \<noteq> 0x00 \<and> addr \<noteq> 0x02 \<longrightarrow>
      io_read dev addr sz =
        (0, [Fprintf_stderr (''Reading IO address '' @ llu addr @ ''.'' @ [CHR 0x0A])]))
   \<and> (addr \<noteq> 0x00 \<and> addr \<noteq> 0x01 \<and> addr \<noteq> 0x02 \<longrightarrow>
      io_write timer_param addr val sz =
        [Fprintf_stderr (''Writting '' @ llu val @ '' in IO address '' @ llu addr
           @ ''.'' @ [CHR 0x0A])])
   \<and> \<not> list_ex is_exit (snd (io_read dev addr sz))
   \<and> \<not> list_ex is_exit (io_write timer_param addr val sz)"
  by (simp add: io_read_def io_write_def io_addr_defs Let_def)

theorem io_unmatched_offsets_witness:
  "io_read \<lparr>read_char = 0x41, get_timer_value = 9\<rparr> 0x03 1 =
     (0, [Fprintf_stderr (''Reading IO address 3.'' @ [CHR 0x0A])])
   \<and> io_write uint 0x03 0x07 1 =
     [Fprintf_stderr (''Writting 7 in IO address 3.'' @ [CHR 0x0A])]"
  using io_unmatched_offsets [where addr = 3 and sz = 1 and val = 7 and timer_param = uint
      and dev = "\<lparr>read_char = 0x41, get_timer_value = 9\<rparr>"]
  by (simp add: llu_small)

text \<open>
  C10. A read at offset 0x01, where only a write is defined, goes the way of the offsets
  with no device: it prints the line for address 1 on stderr and returns 0. The line is
  its only effect, so the console's echo setting is what it was before.
\<close>

theorem io_read_echo_offset:
  "io_read dev 0x01 sz = (0, [Fprintf_stderr (''Reading IO address 1.'' @ [CHR 0x0A])])
   \<and> list_all is_diagnostic (snd (io_read dev 0x01 sz))
   \<and> echo_after echo (snd (io_read dev 0x01 sz)) = echo"
  by (simp add: io_read_def io_addr_defs llu_small)

subsection \<open>The payload of a wide write\<close>

text \<open>
  C8, as stated, fails. The screen offset takes the low byte of the value, so 0x100 and
  0x000, written with a width of two bytes, are the same screen write; at the echo offset
  the same two values differ, the first switching the echo on and the second off. The
  echo offset tests the whole value, not its low byte. This is so even when the timer
  takes a byte, as the conversion chosen here has it.
\<close>

theorem io_write_payload_counterexample:
  "valid_access 2
   \<and> (ucast (0x100 :: u64) :: byte) = ucast (0x000 :: u64)
   \<and> io_write (\<lambda>v. uint (ucast v :: byte)) SCREEN_WRITE_ADDR 0x100 2
       = io_write (\<lambda>v. uint (ucast v :: byte)) SCREEN_WRITE_ADDR 0x000 2
   \<and> io_write (\<lambda>v. uint (ucast v :: byte)) CON_ECHO_WRITE_ADDR 0x100 2
       = [Qemu_chr_fe_set_echo True]
   \<and> io_write (\<lambda>v. uint (ucast v :: byte)) CON_ECHO_WRITE_ADDR 0x000 2
       = [Qemu_chr_fe_set_echo False]"
  by (simp add: io_write_def io_addr_defs valid_access_def io_ops_valid_def Let_def)

text \<open>
  C8, amended. The width of a write is ignored at every offset. What counts of the value
  differs between the screen and the echo offset: at 0x00 it is the low byte (two values
  give the same effect exactly when their low bytes agree), at 0x01 it is whether the
  whole value is zero (two values give the same effect exactly when both are zero or
  neither is). At 0x02 the value is handed to \<open>set_timer_value\<close>, and two values give
  the same effect exactly when the conversion to that function's parameter type, which
  is declared outside the board file, gives the same result for both.
\<close>

theorem io_write_payload:
  "io_write timer_param addr v sz = io_write timer_param addr v sz'
   \<and> (io_write timer_param SCREEN_WRITE_ADDR v sz
         = io_write timer_param SCREEN_WRITE_ADDR w sz)
       = ((ucast v :: byte) = ucast w)
   \<and> (io_write timer_param CON_ECHO_WRITE_ADDR v sz
         = io_write timer_param CON_ECHO_WRITE_ADDR w sz)
       = ((v = 0) = (w = 0))
   \<and> (io_write timer_param TIMER_WRITE_ADDR v sz
         = io_write timer_param TIMER_WRITE_ADDR w sz)
       = (timer_param v = timer_param w)"
  by (auto simp add: io_write_def io_addr_defs Let_def)

text \<open>
  With a timer that takes a byte, the values 0x1FF and 0xFF are the same write at the
  timer offset; with one that takes 64 bits they are not.
\<close>

lemma io_write_timer_example:
  "io_write (\<lambda>v. uint (ucast v :: byte)) TIMER_WRITE_ADDR 0x1FF 2
     = io_write (\<lambda>v. uint (ucast v :: byte)) TIMER_WRITE_ADDR 0xFF 2
   \<and> io_write uint TIMER_WRITE_ADDR 0x1FF 2 \<noteq> io_write uint TIMER_WRITE_ADDR 0xFF 2"
  by (simp add: io_write_def io_addr_defs)

text \<open>
  No way of reading one byte out of the value accounts for both offsets: a function \<open>p\<close>
  from values to bytes whose result fixed the effect of a write at the screen offset and
  at the echo offset would tell the 257 values 0 to 256 apart.
\<close>

lemma low_byte_of_nat:
  "k \<le> 256 \<Longrightarrow> unat (ucast (of_nat k :: u64) :: byte) = k mod 256"
  by (simp add: unsigned_ucast_eq unat_of_nat take_bit_eq_mod unsigned_of_nat)

lemma zero_of_nat: "k \<le> 256 \<Longrightarrow> ((of_nat k :: u64) = 0) = (k = 0)"
  by (auto simp add: word_of_nat_eq_0_iff dest: dvd_imp_le)

lemma mod_256_cases:
  fixes m n :: nat
  assumes "m \<le> 256" "n \<le> 256" "m mod 256 = n mod 256" "(m = 0) = (n = 0)"
  shows "m = n"
proof (cases "m = 256")
  case True
  with assms(3) have "n mod 256 = 0" by simp
  with assms(2) have "n = 0 \<or> n = 256" by auto
  with True assms(4) show ?thesis by auto
next
  case False
  with assms(1) have m: "m < 256" by simp
  show ?thesis
  proof (cases "n = 256")
    case True
    with assms(3) m have "m = 0" by simp
    with True assms(4) show ?thesis by simp
  next
    case False
    with assms(2) have "n < 256" by simp
    with m assms(3) show ?thesis by simp
  qed
qed

lemma payload_separates:
  fixes m n :: nat
  assumes "m \<le> 256" "n \<le> 256"
    and low: "(ucast (of_nat m :: u64) :: byte) = ucast (of_nat n :: u64)"
    and zero: "((of_nat m :: u64) = 0) = ((of_nat n :: u64) = 0)"
  shows "m = n"
proof -
  from low have "unat (ucast (of_nat m :: u64) :: byte) = unat (ucast (of_nat n :: u64) :: byte)"
    by (rule arg_cong)
  then have "m mod 256 = n mod 256"
    unfolding low_byte_of_nat [OF assms(1)] low_byte_of_nat [OF assms(2)] .
  moreover from zero have "(m = 0) = (n = 0)"
    unfolding zero_of_nat [OF assms(1)] zero_of_nat [OF assms(2)] .
  ultimately show ?thesis
    by (rule mod_256_cases [OF assms(1,2)])
qed

lemma payload_inj:
  fixes p :: "u64 \<Rightarrow> byte"
  assumes p: "\<And>v w. p v = p w \<Longrightarrow> (ucast v :: byte) = ucast w \<and> ((v = 0) = (w = 0))"
  shows "inj_on (\<lambda>n. p (of_nat n)) {0..256::nat}"
proof (rule inj_onI)
  fix m n :: nat
  assume mn: "m \<in> {0..256}" "n \<in> {0..256}" and eq: "p (of_nat m) = p (of_nat n)"
  from mn have le: "m \<le> 256" "n \<le> 256" by simp_all
  from p [OF eq] have low: "(ucast (of_nat m :: u64) :: byte) = ucast (of_nat n :: u64)"
    by (rule conjunct1)
  from p [OF eq] have zero: "((of_nat m :: u64) = 0) = ((of_nat n :: u64) = 0)"
    by (rule conjunct2)
  from le low zero show "m = n"
    by (rule payload_separates)
qed

lemma no_single_byte_payload:
  "\<not> (\<exists>p :: u64 \<Rightarrow> byte. \<forall>v w. p v = p w \<longrightarrow>
         io_write timer_param SCREEN_WRITE_ADDR v 1
           = io_write timer_param SCREEN_WRITE_ADDR w 1
       \<and> io_write timer_param CON_ECHO_WRITE_ADDR v 1
           = io_write timer_param CON_ECHO_WRITE_ADDR w 1)"
proof
  assume "\<exists>p :: u64 \<Rightarrow> byte. \<forall>v w. p v = p w \<longrightarrow>
         io_write timer_param SCREEN_WRITE_ADDR v 1
           = io_write timer_param SCREEN_WRITE_ADDR w 1
       \<and> io_write timer_param CON_ECHO_WRITE_ADDR v 1
           = io_write timer_param CON_ECHO_WRITE_ADDR w 1"
  then obtain p :: "u64 \<Rightarrow> byte" where p:
    "\<And>v w. p v = p w \<Longrightarrow> (ucast v :: byte) = ucast w \<and> ((v = 0) = (w = 0))"
    by (auto simp add: io_write_def io_addr_defs Let_def)
  then have "inj_on (\<lambda>n. p (of_nat n)) {0..256::nat}"
    by (rule payload_inj)
  then have "card ((\<lambda>n. p (of_nat n)) ` {0..256::nat}) = card {0..256::nat}"
    by (rule card_image)
  then have "card ((\<lambda>n. p (of_nat n)) ` {0..256::nat}) = 257"
    by simp
  moreover have "card ((\<lambda>n. p (of_nat n)) ` {0..256::nat}) \<le> card (UNIV :: byte set)"
    by (rule card_mono) simp_all
  ultimately show False
    by (simp add: card_word)
qed

subsection \<open>The bootstrap\<close>

text \<open>
  C7. When the bios file (the global \<open>bios_name\<close>, or \<open>6502_bios.rom\<close> where that is
  \<open>NULL\<close>) can be read and has at most 4096 bytes, the bootstrap returns a machine
  whose program counter is 0x1000 and in which byte \<open>i\<close> of the image is read at
  address 0x1000 + \<open>i\<close>, byte 0 at the base of the ROM region. When the file cannot be read
  or has more than 4096 bytes, the bootstrap ends in \<open>exit(-1)\<close>, its last effect and
  the only exit, and returns no machine.
\<close>

theorem bootstrap_loads_rom:
  "(files (case bios_name of None \<Rightarrow> BIOS_FILENAME | Some f \<Rightarrow> f) = Some img
      \<and> length img \<le> 4096 \<longrightarrow>
      (\<exists>m. mos6502_init files bios_name = Ready m \<and> pc m = 0x1000
         \<and> (\<forall>i<length img. fst (mem_read dev (0x1000 + i) m) = img ! i)))
   \<and> (files (case bios_name of None \<Rightarrow> BIOS_FILENAME | Some f \<Rightarrow> f) = None
      \<or> (\<exists>big. files (case bios_name of None \<Rightarrow> BIOS_FILENAME | Some f \<Rightarrow> f) = Some big
            \<and> 4096 < length big) \<longrightarrow>
      (\<exists>m es. mos6502_init files bios_name = Exited (- 1) m
         \<and> effects m = es @ [Exit (- 1)] \<and> \<not> list_ex is_exit es))"
proof (intro conjI impI)
  let ?f = "case bios_name of None \<Rightarrow> BIOS_FILENAME | Some f \<Rightarrow> f"
  assume ok: "files ?f = Some img \<and> length img \<le> 4096"
  let ?start = "perform (Load_image_targphys ?f 0x1000 0x1000) (init_regions (set_pc 0x1000 cpu_init))"
  let ?m = "init_console (store_image 0x1000 img ?start)"
  have ready: "mos6502_init files bios_name = Ready ?m"
    using ok by (intro boot_success) simp_all
  have sub0: "subregions ?start = registered_regions"
    by (simp add: subregions_init_regions set_pc_def cpu_init_def)
  have sub: "subregions ?m = registered_regions"
    using sub0 by simp
  have "fst (mem_read dev (0x1000 + i) ?m) = img ! i" if "i < length img" for i
  proof -
    from that ok have "mem_read dev (0x1000 + i) ?m = (ram ?m ''6502.rom'' (0x1000 + i - 0x1000), ?m)"
      by (intro mem_read_rom [OF sub]) simp_all
    moreover have "ram ?m ''6502.rom'' i = img ! i"
      using store_image_rom [OF sub0, of 0 img i] that ok by simp
    ultimately show ?thesis by simp
  qed
  moreover have "pc ?m = 0x1000"
    by (simp add: pc_boot)
  ultimately show "\<exists>m. mos6502_init files bios_name = Ready m \<and> pc m = 0x1000
         \<and> (\<forall>i<length img. fst (mem_read dev (0x1000 + i) m) = img ! i)"
    using ready by blast
next
  let ?f = "case bios_name of None \<Rightarrow> BIOS_FILENAME | Some f \<Rightarrow> f"
  assume bad: "files ?f = None \<or> (\<exists>big. files ?f = Some big \<and> 4096 < length big)"
  then have bad': "files ?f = None \<or> (\<exists>big. files ?f = Some big \<and> 0x1000 < length big)"
    by simp
  let ?es = "effects (init_regions (set_pc 0x1000 cpu_init)) @
       [Load_image_targphys ?f 0x1000 0x1000,
        Fprintf_stderr (''Error loading bios file: '' @ ?f @ [CHR 0x0A])]"
  let ?m = "perform (Exit (- 1))
         (perform (Fprintf_stderr (''Error loading bios file: '' @ ?f @ [CHR 0x0A]))
           (perform (Load_image_targphys ?f 0x1000 0x1000)
             (init_regions (set_pc 0x1000 cpu_init))))"
  have quiet: "\<not> list_ex is_exit ?es"
    by (simp add: effects_boot)
  have eff: "effects ?m = ?es @ [Exit (- 1)]"
    by simp
  have "mos6502_init files bios_name = Exited (- 1) ?m"
    by (rule boot_failure [of files bios_name, OF bad'])
  with eff quiet show "\<exists>m es. mos6502_init files bios_name = Exited (- 1) m
         \<and> effects m = es @ [Exit (- 1)] \<and> \<not> list_ex is_exit es"
    by blast
qed

theorem bootstrap_loads_rom_witness:
  "(\<exists>m. mos6502_init [''6502_bios.rom'' \<mapsto> [0xA9, 0x00]] None = Ready m \<and> pc m = 0x1000
      \<and> fst (mem_read \<lparr>read_char = 0, get_timer_value = 0\<rparr> 0x1000 m) = 0xA9)
   \<and> (\<exists>m es. mos6502_init Map.empty None = Exited (- 1) m
      \<and> effects m = es @ [Exit (- 1)] \<and> \<not> list_ex is_exit es)
   \<and> (\<exists>m es. mos6502_init [''rom.bin'' \<mapsto> replicate 4097 0xEA] (Some ''rom.bin'')
        = Exited (- 1) m
      \<and> effects m = es @ [Exit (- 1)] \<and> \<not> list_ex is_exit es)"
proof (intro conjI)
  let ?dev = "\<lparr>read_char = 0, get_timer_value = 0\<rparr>"
  have "\<exists>m. mos6502_init [''6502_bios.rom'' \<mapsto> [0xA9, 0x00]] None = Ready m \<and> pc m = 0x1000
      \<and> (\<forall>i<length [0xA9, 0x00 :: byte]. fst (mem_read ?dev (0x1000 + i) m) = [0xA9, 0x00] ! i)"
    using bootstrap_loads_rom [of "[''6502_bios.rom'' \<mapsto> [0xA9, 0x00]]" None "[0xA9, 0x00]" ?dev]
    by (simp add: BIOS_FILENAME_def)
  then obtain m where m: "mos6502_init [''6502_bios.rom'' \<mapsto> [0xA9, 0x00]] None = Ready m"
      "pc m = 0x1000"
      "\<forall>i<length [0xA9, 0x00 :: byte]. fst (mem_read ?dev (0x1000 + i) m) = [0xA9, 0x00] ! i"
    by blast
  from m(3) have "fst (mem_read ?dev (0x1000 + 0) m) = [0xA9, 0x00] ! 0"
    by (rule allE [of _ 0]) simp
  with m(1,2) show "\<exists>m. mos6502_init [''6502_bios.rom'' \<mapsto> [0xA9, 0x00]] None = Ready m
      \<and> pc m = 0x1000 \<and> fst (mem_read ?dev 0x1000 m) = 0xA9"
    by simp
next
  show "\<exists>m es. mos6502_init Map.empty None = Exited (- 1) m
      \<and> effects m = es @ [Exit (- 1)] \<and> \<not> list_ex is_exit es"
    using bootstrap_loads_rom [of Map.empty None]
    by simp
next
  show "\<exists>m es. mos6502_init [''rom.bin'' \<mapsto> replicate 4097 0xEA] (Some ''rom.bin'')
        = Exited (- 1) m
      \<and> effects m = es @ [Exit (- 1)] \<and> \<not> list_ex is_exit es"
    using bootstrap_loads_rom [of "[''rom.bin'' \<mapsto> replicate 4097 0xEA]" "Some ''rom.bin''"]
    by simp
qed


text \<open>
  C6, as stated, fails: with the effects of a successful bootstrap sorted into the steps
  of the documented order (regions 0, ROM image 1, CPU and program counter 2,
  collaborators 3) the sequence starts with step 2, the CPU being initialised and its
  program counter set before the first region exists.
\<close>

theorem bootstrap_order_counterexample:
  "map documented_phase
     (effects (machine_of (mos6502_init [''6502_bios.rom'' \<mapsto> [0xEA]] None))) =
     [2, 2, 0, 0, 0, 0, 0, 0, 0, 0, 0, 0, 0, 0, 0, 0, 0, 0, 1, 3, 3, 3, 3, 3, 3, 3, 3, 3, 3]
   \<and> \<not> sorted (map documented_phase
          (effects (machine_of (mos6502_init [''6502_bios.rom'' \<mapsto> [0xEA]] None))))"
proof -
  have "machine_of (mos6502_init [''6502_bios.rom'' \<mapsto> [0xEA]] None) =
     init_console (store_image 0x1000 [0xEA]
       (perform (Load_image_targphys ''6502_bios.rom'' 0x1000 0x1000)
          (init_regions (set_pc 0x1000 cpu_init))))"
    using boot_success [of "[''6502_bios.rom'' \<mapsto> [0xEA]]" None "[0xEA]"]
    by (simp add: BIOS_FILENAME_def)
  then have "map documented_phase
     (effects (machine_of (mos6502_init [''6502_bios.rom'' \<mapsto> [0xEA]] None))) =
     [2, 2, 0, 0, 0, 0, 0, 0, 0, 0, 0, 0, 0, 0, 0, 0, 0, 0, 1, 3, 3, 3, 3, 3, 3, 3, 3, 3, 3]"
    by (simp add: effects_init_console effects_boot)
  then show ?thesis by simp
qed


text \<open>
  C6, amended. A successful bootstrap performs, in this order: the initialisation of the
  CPU and of its program counter (0x1000); the creation and registration of the five
  regions; the loading of the ROM image at 0x1000; the construction and selection of the
  console and the registration of the read handler with it; the start of the keyboard
  buffer; the start of the timer with the tick callback.
\<close>

theorem bootstrap_order:
  "mos6502_init files bios_name = Ready m \<Longrightarrow>
   effects m =
     [Cpu_init, Set_pc 0x1000,
      Get_system_memory,
      Memory_region_init_ram ''6502.ram1'' 0x1000,
      Vmstate_register_ram_global ''6502.ram1'',
      Memory_region_add_subregion 0x0000 ''6502.ram1'',
      Memory_region_init_ram ''6502.rom'' 0x1000,
      Memory_region_set_readonly ''6502.rom'' True,
      Vmstate_register_ram_global ''6502.rom'',
      Memory_region_add_subregion 0x1000 ''6502.rom'',
      Memory_region_init_ram ''6502.ram2'' 0xDFF0,
      Vmstate_register_ram_global ''6502.ram2'',
      Memory_region_add_subregion 0x2000 ''6502.ram2'',
      Memory_region_init_io ''6502.io'' 0x100,
      Memory_region_add_subregion 0xFE00 ''6502.io'',
      Memory_region_init_ram ''6502.ram3'' 0x100,
      Vmstate_register_ram_global ''6502.ram3'',
      Memory_region_add_subregion 0xFF00 ''6502.ram3'',
      Load_image_targphys (case bios_name of None \<Rightarrow> BIOS_FILENAME | Some f \<Rightarrow> f)
        0x1000 0x1000,
      Qemu_opts_create ''6502.console'', Qemu_opt_set ''cols'' ''80'',
      Qemu_opt_set ''rows'' ''25'', Text_console_init, Get_displaystate,
      Text_consoles_set_display, Console_select 3,
      Qemu_chr_add_handlers Can_read_handler Read_handler,
      Init_keyboard,
      Init_timer Timer_callback]"
proof -
  assume ready: "mos6502_init files bios_name = Ready m"
  then obtain img where img:
    "files (case bios_name of None \<Rightarrow> BIOS_FILENAME | Some f \<Rightarrow> f) = Some img"
    "length img \<le> 0x1000"
    using boot_ready_image by blast
  from boot_success [of files bios_name img, OF img] ready
  have "m = init_console (store_image 0x1000 img
       (perform (Load_image_targphys (case bios_name of None \<Rightarrow> BIOS_FILENAME | Some f \<Rightarrow> f)
          0x1000 0x1000) (init_regions (set_pc 0x1000 cpu_init))))"
    by simp
  then show ?thesis
    by (simp add: effects_init_console effects_boot)
qed


theorem bootstrap_order_witness:
  "effects (machine_of (mos6502_init [''6502_bios.rom'' \<mapsto> [0xEA]] None)) =
     [Cpu_init, Set_pc 0x1000,
      Get_system_memory,
      Memory_region_init_ram ''6502.ram1'' 0x1000,
      Vmstate_register_ram_global ''6502.ram1'',
      Memory_region_add_subregion 0x0000 ''6502.ram1'',
      Memory_region_init_ram ''6502.rom'' 0x1000,
      Memory_region_set_readonly ''6502.rom'' True,
      Vmstate_register_ram_global ''6502.rom'',
      Memory_region_add_subregion 0x1000 ''6502.rom'',
      Memory_region_init_ram ''6502.ram2'' 0xDFF0,
      Vmstate_register_ram_global ''6502.ram2'',
      Memory_region_add_subregion 0x2000 ''6502.ram2'',
      Memory_region_init_io ''6502.io'' 0x100,
      Memory_region_add_subregion 0xFE00 ''6502.io'',
      Memory_region_init_ram ''6502.ram3'' 0x100,
      Vmstate_register_ram_global ''6502.ram3'',
      Memory_region_add_subregion 0xFF00 ''6502.ram3'',
      Load_image_targphys ''6502_bios.rom'' 0x1000 0x1000,
      Qemu_opts_create ''6502.console'', Qemu_opt_set ''cols'' ''80'',
      Qemu_opt_set ''rows'' ''25'', Text_console_init, Get_displaystate,
      Text_consoles_set_display, Console_select 3,
      Qemu_chr_add_handlers Can_read_handler Read_handler,
      Init_keyboard,
      Init_timer Timer_callback]"
  using bootstrap_order [OF boot_nop] by (simp add: BIOS_FILENAME_def)


subsection \<open>Writes to the ROM\<close>

text \<open>
  C9. After a successful bootstrap and any run \<open>ws\<close> of CPU writes, to any addresses,
  a further write to an address of 0x1000 to 0x1FFF leaves the machine exactly as it is,
  and a read at such an address returns what it returned right after the bootstrap: the
  byte of the image at that offset, where the image has one.
\<close>

theorem rom_writes_ignored:
  assumes "mos6502_init files bios_name = Ready m" and "0x1000 \<le> a" and "a \<le> 0x1FFF"
  shows "mem_write timer_param a b (mem_writes timer_param ws m)
           = mem_writes timer_param ws m
   \<and> fst (mem_read dev a (mem_writes timer_param ws m)) = fst (mem_read dev a m)
   \<and> (\<forall>img. files (case bios_name of None \<Rightarrow> BIOS_FILENAME | Some f \<Rightarrow> f) = Some img
         \<and> a - 0x1000 < length img \<longrightarrow>
         fst (mem_read dev a (mem_writes timer_param ws m)) = img ! (a - 0x1000))"
proof -
  let ?f = "case bios_name of None \<Rightarrow> BIOS_FILENAME | Some f \<Rightarrow> f"
  from assms(1) have sub: "subregions m = registered_regions"
    using subregions_mos6502_init [of files bios_name] by simp
  from assms(3) have a: "a < 0x2000" by simp
  from mem_writes_keep_rom [OF sub, of timer_param ws]
  have sub': "subregions (mem_writes timer_param ws m) = registered_regions"
    and rom: "ram (mem_writes timer_param ws m) ''6502.rom'' = ram m ''6502.rom''"
    by simp_all
  have w: "mem_write timer_param a b (mem_writes timer_param ws m)
             = mem_writes timer_param ws m"
    by (rule mem_write_rom [OF sub' assms(2) a])
  have r: "fst (mem_read dev a (mem_writes timer_param ws m)) = fst (mem_read dev a m)"
    by (simp add: mem_read_rom [OF sub' assms(2) a] mem_read_rom [OF sub assms(2) a] rom)
  have l: "fst (mem_read dev a (mem_writes timer_param ws m)) = img ! (a - 0x1000)"
    if img: "files ?f = Some img" "a - 0x1000 < length img" for img
  proof -
    from boot_ready_image [OF assms(1)] img(1) have len: "length img \<le> 0x1000"
      by auto
    let ?start = "perform (Load_image_targphys ?f 0x1000 0x1000) (init_regions (set_pc 0x1000 cpu_init))"
    from boot_success [of files bios_name img, OF img(1) len] assms(1)
    have m: "m = init_console (store_image 0x1000 img ?start)"
      by simp
    have "subregions ?start = registered_regions"
      by (simp add: subregions_init_regions set_pc_def cpu_init_def)
    from store_image_rom [OF this, of 0 img "a - 0x1000"] len img(2)
    have "ram m ''6502.rom'' (a - 0x1000) = img ! (a - 0x1000)"
      by (simp add: m)
    then show ?thesis
      by (simp add: r mem_read_rom [OF sub assms(2) a])
  qed
  from w r l show ?thesis by blast
qed


theorem rom_writes_ignored_witness:
  "mem_write uint 0x1000 0xFF
      (mem_writes uint [(0x1000, 0xFF), (0x0010, 0x01), (0x1FFF, 0x55)]
         (machine_of (mos6502_init [''6502_bios.rom'' \<mapsto> [0xEA]] None)))
     = mem_writes uint [(0x1000, 0xFF), (0x0010, 0x01), (0x1FFF, 0x55)]
         (machine_of (mos6502_init [''6502_bios.rom'' \<mapsto> [0xEA]] None))
   \<and> fst (mem_read \<lparr>read_char = 0, get_timer_value = 0\<rparr> 0x1000
        (mem_writes uint [(0x1000, 0xFF), (0x0010, 0x01), (0x1FFF, 0x55)]
           (machine_of (mos6502_init [''6502_bios.rom'' \<mapsto> [0xEA]] None)))) = 0xEA"
proof -
  have a: "(0x1000 :: nat) \<le> 0x1000" "(0x1000 :: nat) \<le> 0x1FFF"
    by simp_all
  note t = rom_writes_ignored [OF boot_nop a, where timer_param = uint and b = "0xFF"
      and ws = "[(0x1000, 0xFF), (0x0010, 0x01), (0x1FFF, 0x55)]"
      and dev = "\<lparr>read_char = 0, get_timer_value = 0\<rparr>"]
  from t have w: "mem_write uint 0x1000 0xFF
      (mem_writes uint [(0x1000, 0xFF), (0x0010, 0x01), (0x1FFF, 0x55)]
         (machine_of (mos6502_init [''6502_bios.rom'' \<mapsto> [0xEA]] None)))
     = mem_writes uint [(0x1000, 0xFF), (0x0010, 0x01), (0x1FFF, 0x55)]
         (machine_of (mos6502_init [''6502_bios.rom'' \<mapsto> [0xEA]] None))"
    by (rule conjunct1)
  from t have "\<forall>img. [''6502_bios.rom'' \<mapsto> [0xEA]]
            (case None of None \<Rightarrow> BIOS_FILENAME | Some f \<Rightarrow> f) = Some img
         \<and> 0x1000 - 0x1000 < length img \<longrightarrow>
         fst (mem_read \<lparr>read_char = 0, get_timer_value = 0\<rparr> 0x1000
           (mem_writes uint [(0x1000, 0xFF), (0x0010, 0x01), (0x1FFF, 0x55)]
             (machine_of (mos6502_init [''6502_bios.rom'' \<mapsto> [0xEA]] None))))
           = img ! (0x1000 - 0x1000)"
    by (elim conjE)
  then have "fst (mem_read \<lparr>read_char = 0, get_timer_value = 0\<rparr> 0x1000
           (mem_writes uint [(0x1000, 0xFF), (0x0010, 0x01), (0x1FFF, 0x55)]
             (machine_of (mos6502_init [''6502_bios.rom'' \<mapsto> [0xEA]] None)))) = 0xEA"
    by (rule allE [of _ "[0xEA]"]) (simp add: BIOS_FILENAME_def del: mem_writes.simps)
  with w show ?thesis by (rule conjI)
qed

end
